theory Spec2Isabelle
  imports Complex_Main "HOL-Library.Word"
begin

section \<open>Room names\<close>

text \<open>
  Both \<open>CallService.createCall\<close> and the component's \<open>getToken\<close> compute the room
  identifier with the same expression, \<^verbatim>\<open>[a, b].sort().join('_')\<close>. Without a comparator,
  \<open>Array.prototype.sort\<close> orders strings by their sequence of code units; on a two-element
  array it swaps the elements exactly when the second is strictly smaller than the first.
  Identities are modelled as \<open>string\<close> (lists of 8-bit characters) compared by character
  code, which is the order JavaScript uses on such strings.
\<close>

fun str_less :: "string \<Rightarrow> string \<Rightarrow> bool" where
  "str_less [] [] = False"
| "str_less [] (y # ys) = True"
| "str_less (x # xs) [] = False"
| "str_less (x # xs) (y # ys) =
     (if (of_char x :: nat) < of_char y then True
      else if (of_char y :: nat) < of_char x then False
      else str_less xs ys)"

definition sort2 :: "string \<Rightarrow> string \<Rightarrow> string list" where
  "sort2 a b = (if str_less b a then [b, a] else [a, b])"

fun join :: "string \<Rightarrow> string list \<Rightarrow> string" where
  "join sep [] = []"
| "join sep [x] = x"
| "join sep (x # y # ys) = x @ sep @ join sep (y # ys)"

definition roomName :: "string \<Rightarrow> string \<Rightarrow> string" where
  "roomName a b = join ''_'' (sort2 a b)"

section \<open>Call signalling service\<close>

text \<open>
  The \<open>calls\<close> collection of the document store is a map from document id to document.
  A document holds the fields \<open>createCall\<close> writes; the \<open>id\<close> of the \<open>CallInvite\<close>
  interface is the document's key. Timestamps are milliseconds as integers, and the value
  \<open>serverTimestamp()\<close> resolves to is a parameter of each operation.
\<close>

type_synonym timestamp = int

datatype call_status = Ringing | Accepted | Ended

record CallInvite =
  roomId :: string
  callerId :: string
  callerName :: string
  calleeId :: string
  calleeName :: string
  status :: call_status
  createdAt :: timestamp
  updatedAt :: timestamp

type_synonym calls = "string \<rightharpoonup> CallInvite"

datatype store_error = NotFound

text \<open>
  \<open>addDoc\<close> stores the document under an id the store generates (the parameter \<open>ref\<close>) and
  returns that id. \<open>updateDoc\<close> patches an existing document and fails, leaving the
  collection as it was, when the reference names no document.
\<close>

definition addDoc :: "string \<Rightarrow> CallInvite \<Rightarrow> calls \<Rightarrow> string \<times> calls" where
  "addDoc ref d db = (ref, db(ref \<mapsto> d))"

definition updateDoc :: "string \<Rightarrow> (CallInvite \<Rightarrow> CallInvite) \<Rightarrow> calls \<Rightarrow> store_error + calls" where
  "updateDoc ref patch db =
     (case db ref of
        None \<Rightarrow> Inl NotFound
      | Some d \<Rightarrow> Inr (db(ref \<mapsto> patch d)))"

record createCall_params =
  p_callerId :: string
  p_callerName :: string
  p_calleeId :: string
  p_calleeName :: string

record createCall_result =
  r_callId :: string
  r_roomId :: string

definition createCall ::
  "createCall_params \<Rightarrow> string \<Rightarrow> timestamp \<Rightarrow> calls \<Rightarrow> createCall_result \<times> calls" where
  "createCall params ref now db =
     (let room = roomName (p_callerId params) (p_calleeId params);
          (ref', db') = addDoc ref
            \<lparr> roomId = room,
              callerId = p_callerId params,
              callerName = p_callerName params,
              calleeId = p_calleeId params,
              calleeName = p_calleeName params,
              status = Ringing,
              createdAt = now,
              updatedAt = now \<rparr> db
      in (\<lparr> r_callId = ref', r_roomId = room \<rparr>, db'))"

definition acceptCall :: "timestamp \<Rightarrow> string \<Rightarrow> calls \<Rightarrow> store_error + calls" where
  "acceptCall now callId db =
     updateDoc callId (\<lambda>d. d\<lparr> status := Accepted, updatedAt := now \<rparr>) db"

definition endCall :: "timestamp \<Rightarrow> string \<Rightarrow> calls \<Rightarrow> store_error + calls" where
  "endCall now callId db =
     updateDoc callId (\<lambda>d. d\<lparr> status := Ended, updatedAt := now \<rparr>) db"

text \<open>
  A sequence of transition requests on one invite, each with the server time at which it
  is applied; the sequence stops at the first request the store rejects.
\<close>

datatype transition = AcceptCall | EndCall

fun request :: "transition \<Rightarrow> timestamp \<Rightarrow> string \<Rightarrow> calls \<Rightarrow> store_error + calls" where
  "request AcceptCall now callId db = acceptCall now callId db"
| "request EndCall now callId db = endCall now callId db"

fun requests :: "(transition \<times> timestamp) list \<Rightarrow> string \<Rightarrow> calls \<Rightarrow> store_error + calls" where
  "requests [] callId db = Inr db"
| "requests ((t, now) # rs) callId db =
     (case request t now callId db of
        Inl e \<Rightarrow> Inl e
      | Inr db' \<Rightarrow> requests rs callId db')"

fun target :: "transition \<Rightarrow> call_status" where
  "target AcceptCall = Accepted"
| "target EndCall = Ended"

section \<open>Session component\<close>

text \<open>
  The component \<open>VideoChatLiveKit\<close> is modelled by the values its handlers read and
  write (React state and refs) together with a log of what they do to their collaborators:
  the entries passed to \<open>addSessionHistory\<close>, the calls of
  \<open>VideoStorageService.uploadRecording\<close>, the entries passed to \<open>addRecording\<close>, the
  number of \<open>onEndCall\<close> notifications, and the events the browser has queued for the
  recorder's handlers. A handler reads the state of the render that created it, so a value
  such as \<open>isRecording\<close> or \<open>callDuration\<close> is the one from before the handler's own
  updates. Record fields share one name space: the fields of the history entry keep the
  names of the source, those of the other records carry a prefix.
\<close>

type_synonym blob = "8 word list"

definition blob_size :: "blob \<Rightarrow> nat" where
  "blob_size b = length b"


record user =
  uid :: string
  displayName :: "string option"

record props =
  prop_partnerId :: string
  prop_partnerName :: string
  prop_connectionFee :: rat

record SessionHistoryEntry =
  partnerId :: string
  partnerUsername :: string
  duration :: int
  timestamp :: timestamp
  connectionFee :: rat
  wasRecorded :: bool

record upload_meta =
  up_title :: string
  up_ownerId :: string
  up_ownerName :: string
  up_partnerId :: string
  up_partnerName :: string
  up_price :: rat
  up_isPublic :: bool


record recording =
  rec_id :: string
  rec_partnerId :: string
  rec_partnerUsername :: string
  rec_title :: string
  rec_duration :: int
  rec_timestamp :: timestamp
  rec_views :: nat
  rec_earnings :: nat
  rec_price :: rat
  rec_isPublic :: bool
  rec_thumbnail :: "string option"

text \<open>
  A \<open>MediaRecorder\<close> with the values its \<open>onstop\<close> closure captured when
  \<open>startRecording\<close> created it: the chunk sequence, title, duration and price of that
  render, the signed-in user and the partner.
\<close>

datatype recorder_state = RInactive | RRecording | RPaused

record recorder =
  recorderId :: nat
  recorderState :: recorder_state
  seenChunks :: "blob list"
  seenTitle :: string
  seenDuration :: int
  seenPrice :: rat
  seenUser :: "user option"
  seenPartnerId :: string
  seenPartnerName :: string

datatype task = DataAvailable recorder blob | StopEvent recorder

record component =
  callDuration :: int
  isRecording :: bool
  recordingTitle :: string
  recordingPrice :: rat
  showRecordingSettings :: bool
  mediaRecorder :: "recorder option"
  recordedChunks :: "blob list"
  startTimeRef :: timestamp
  localStreamRef :: "nat option"
  sessionHistory :: "SessionHistoryEntry list"
  uploadCalls :: "(blob \<times> upload_meta) list"
  recordingsAdded :: "recording list"
  endCallCount :: nat
  taskQueue :: "task list"


text \<open>The recorder's \<open>ondataavailable\<close> handler, for an event carrying \<open>chunk\<close>.\<close>

definition ondataavailable :: "blob \<Rightarrow> component \<Rightarrow> component" where
  "ondataavailable chunk c =
     (if blob_size chunk > 0 then c\<lparr> recordedChunks := recordedChunks c @ [chunk] \<rparr> else c)"




definition or_else :: "string \<Rightarrow> string \<Rightarrow> string" where
  "or_else s d = (if s = [] then d else s)"

definition opt_or_else :: "string option \<Rightarrow> string \<Rightarrow> string" where
  "opt_or_else s d = (case s of None \<Rightarrow> d | Some x \<Rightarrow> or_else x d)"


text \<open>
  \<open>stopRecording\<close>: \<open>MediaRecorder.stop()\<close> returns at once; the browser queues a task
  that fires \<open>dataavailable\<close> with the data gathered so far (\<open>flushed\<close>) and then \<open>stop\<close>.
  The function awaits nothing, so the promise it returns is already resolved.
\<close>

definition stopRecording :: "blob \<Rightarrow> component \<Rightarrow> component" where
  "stopRecording flushed c =
     (case mediaRecorder c of
        None \<Rightarrow> c
      | Some r \<Rightarrow>
          if recorderState r = RRecording then
            c\<lparr> taskQueue := taskQueue c @
                   [DataAvailable (r\<lparr> recorderState := RInactive \<rparr>) flushed,
                    StopEvent (r\<lparr> recorderState := RInactive \<rparr>)],
               isRecording := False,
               mediaRecorder := None,
               showRecordingSettings := False \<rparr>
          else c)"

text \<open>
  \<open>handleEndCall\<close>. The continuation after \<open>await stopRecording()\<close> is a microtask and
  runs before any queued task, so \<open>addSessionHistory\<close> is called before the recorder's
  events are delivered. \<open>saved\<close> says whether \<open>addSessionHistory\<close> resolves; when it
  rejects, the handler ends there and \<open>onEndCall\<close> is not reached.
\<close>

definition handleEndCall :: "props \<Rightarrow> blob \<Rightarrow> timestamp \<Rightarrow> bool \<Rightarrow> component \<Rightarrow> component" where
  "handleEndCall p flushed now saved c =
     (let c1 = (if isRecording c then stopRecording flushed c else c)
      in if saved then
           c1\<lparr> sessionHistory := sessionHistory c1 @
                  [\<lparr> partnerId = prop_partnerId p,
                     partnerUsername = prop_partnerName p,
                     duration = callDuration c,
                     timestamp = now,
                     connectionFee = prop_connectionFee p,
                     wasRecorded = isRecording c \<rparr>],
               endCallCount := Suc (endCallCount c1) \<rparr>
         else c1)"

text \<open>The display timer's callback, run every second or so, at clock reading \<open>now\<close>.\<close>

definition tick :: "timestamp \<Rightarrow> component \<Rightarrow> component" where
  "tick now c = c\<lparr> callDuration := (now - startTimeRef c) div 1000 \<rparr>"

text \<open>
  \<open>handleDisconnect\<close>, the transport's \<open>onDisconnected\<close> callback; \<open>now\<close> is the reading
  of \<open>Date.now()\<close> and \<open>stamp\<close> that of \<open>new Date()\<close>.
\<close>

definition handleDisconnect :: "props \<Rightarrow> timestamp \<Rightarrow> timestamp \<Rightarrow> bool \<Rightarrow> component \<Rightarrow> component" where
  "handleDisconnect p now stamp saved c =
     (let d = (now - startTimeRef c) div 1000
      in if saved then
           c\<lparr> sessionHistory := sessionHistory c @
                 [\<lparr> partnerId = prop_partnerId p,
                    partnerUsername = prop_partnerName p,
                    duration = d,
                    timestamp = stamp,
                    connectionFee = prop_connectionFee p,
                    wasRecorded = False \<rparr>],
              endCallCount := Suc (endCallCount c) \<rparr>
         else c)"







section \<open>Token endpoint\<close>

text \<open>
  The first statement of \<open>POST\<close> reads the body as JSON and destructures three
  properties from it. It throws when the body is not JSON or is \<open>null\<close>; otherwise each
  property is a JSON value or undefined (\<open>None\<close>). A thrown value is an \<open>Error\<close> with a
  message (\<open>Some msg\<close>) or something else (\<open>None\<close>). Token creation and signing are the
  transport SDK's: the parameter \<open>toJwt\<close> stands for them.
\<close>

datatype jvalue =
  JNull | JBool bool | JNum rat | JStr string | JArr "jvalue list" | JObj "(string \<times> jvalue) list"

fun truthy :: "jvalue option \<Rightarrow> bool" where
  "truthy None = False"
| "truthy (Some JNull) = False"
| "truthy (Some (JBool b)) = b"
| "truthy (Some (JNum n)) = (n \<noteq> 0)"
| "truthy (Some (JStr s)) = (s \<noteq> [])"
| "truthy (Some (JArr xs)) = True"
| "truthy (Some (JObj kvs)) = True"

definition env_set :: "string option \<Rightarrow> bool" where
  "env_set v = (case v of None \<Rightarrow> False | Some s \<Rightarrow> s \<noteq> [])"

type_synonym thrown = "string option"

record token_request =
  req_roomName :: "jvalue option"
  req_participantName :: "jvalue option"
  req_participantIdentity :: "jvalue option"

record environment =
  LIVEKIT_API_KEY :: "string option"
  LIVEKIT_API_SECRET :: "string option"

record token_options =
  opt_identity :: "jvalue option"
  opt_name :: "jvalue option"
  opt_room :: "jvalue option"

datatype response_body = ErrorBody string "string option" | TokenBody string

record response =
  statusCode :: nat
  body :: response_body

definition failed :: "thrown \<Rightarrow> response" where
  "failed ex =
     \<lparr> statusCode = 500,
       body = ErrorBody ''Failed to generate token''
                (Some (case ex of Some msg \<Rightarrow> msg | None \<Rightarrow> ''Unknown error'')) \<rparr>"

definition POST ::
  "thrown + token_request \<Rightarrow> environment \<Rightarrow> (string \<Rightarrow> string \<Rightarrow> token_options \<Rightarrow> thrown + string) \<Rightarrow>
   response" where
  "POST parsed env toJwt =
     (case parsed of
        Inl ex \<Rightarrow> failed ex
      | Inr req \<Rightarrow>
          if \<not> truthy (req_roomName req) \<or> \<not> truthy (req_participantIdentity req) then
            \<lparr> statusCode = 400,
              body = ErrorBody ''roomName and participantIdentity are required'' None \<rparr>
          else if \<not> env_set (LIVEKIT_API_KEY env) \<or> \<not> env_set (LIVEKIT_API_SECRET env) then
            \<lparr> statusCode = 500,
              body = ErrorBody ''Server configuration error - LiveKit credentials not set'' None \<rparr>
          else
            (case toJwt (the (LIVEKIT_API_KEY env)) (the (LIVEKIT_API_SECRET env))
                    \<lparr> opt_identity = req_participantIdentity req,
                      opt_name = (if truthy (req_participantName req) then req_participantName req
                                  else req_participantIdentity req),
                      opt_room = req_roomName req \<rparr> of
               Inl ex \<Rightarrow> failed ex
             | Inr token \<Rightarrow> \<lparr> statusCode = 200, body = TokenBody token \<rparr>))"

text \<open>
  The body \<open>getToken\<close> posts to the endpoint; without a signed-in user it posts nothing.
\<close>

definition getToken_request :: "user option \<Rightarrow> props \<Rightarrow> token_request option" where
  "getToken_request u p =
     (case u of
        None \<Rightarrow> None
      | Some x \<Rightarrow>
          if uid x = [] then None
          else Some
            \<lparr> req_roomName = Some (JStr (roomName (uid x) (prop_partnerId p))),
              req_participantName = Some (JStr (opt_or_else (displayName x) (uid x))),
              req_participantIdentity = Some (JStr (uid x)) \<rparr>)"

section \<open>Example data\<close>

text \<open>Concrete invites, props and component states at which the theorems are evaluated.\<close>

definition ended_invite :: CallInvite where
  "ended_invite =
     \<lparr> roomId = ''u1_u2'', callerId = ''u1'', callerName = ''Ann'',
       calleeId = ''u2'', calleeName = ''Bob'',
       status = Ended, createdAt = 1000, updatedAt = 43000 \<rparr>"

definition ringing_invite :: CallInvite where
  "ringing_invite =
     \<lparr> roomId = ''u1_u2'', callerId = ''u1'', callerName = ''Ann'',
       calleeId = ''u2'', calleeName = ''Bob'',
       status = Ringing, createdAt = 1000, updatedAt = 1000 \<rparr>"

definition example_props :: props where
  "example_props =
     \<lparr> prop_partnerId = ''u2'', prop_partnerName = ''Bob'', prop_connectionFee = 5 \<rparr>"


text \<open>A call mounted at clock reading 0 at clock reading 0, before any timer tick, with nothing recorded.\<close>

definition idle_component :: component where
  "idle_component =
     \<lparr> callDuration = 0, isRecording = False, recordingTitle = [], recordingPrice = 999 / 100,
       showRecordingSettings = False, mediaRecorder = None, recordedChunks = [],
       startTimeRef = 0, localStreamRef = None, sessionHistory = [], uploadCalls = [],
       recordingsAdded = [], endCallCount = 0, taskQueue = [] \<rparr>"

definition configured :: environment where
  "configured = \<lparr> LIVEKIT_API_KEY = Some ''key'', LIVEKIT_API_SECRET = Some ''secret'' \<rparr>"

definition good_request :: token_request where
  "good_request =
     \<lparr> req_roomName = Some (JStr ''u1_u2''), req_participantName = Some (JStr ''Ann''),
       req_participantIdentity = Some (JStr ''u1'') \<rparr>"

definition signer :: "string \<Rightarrow> string \<Rightarrow> token_options \<Rightarrow> thrown + string" where
  "signer k s opts = Inr (k @ ''.'' @ s)"

definition broken_signer :: "string \<Rightarrow> string \<Rightarrow> token_options \<Rightarrow> thrown + string" where
  "broken_signer k s opts = Inl (Some ''signing failed'')"

section \<open>Properties of the room name\<close>

lemma str_less_irrefl: "\<not> str_less a a"
  by (induction a) auto

lemma str_less_asym: "str_less a b \<Longrightarrow> \<not> str_less b a"
  by (induction a b rule: str_less.induct) (auto split: if_splits)

lemma str_less_total: "\<not> str_less a b \<Longrightarrow> \<not> str_less b a \<Longrightarrow> a = b"
  by (induction a b rule: str_less.induct) (auto split: if_splits)

lemma roomName_cases:
  "roomName a b = (if str_less b a then b @ ''_'' @ a else a @ ''_'' @ b)"
  by (simp add: roomName_def sort2_def)

lemma roomName_commute: "roomName a b = roomName b a"
proof (cases "str_less a b")
  case True
  then have "\<not> str_less b a" by (rule str_less_asym)
  with True show ?thesis by (simp add: roomName_cases)
next
  case False
  show ?thesis
  proof (cases "str_less b a")
    case True
    with False show ?thesis by (simp add: roomName_cases)
  next
    case nb: False
    with False have "a = b" by (rule str_less_total)
    then show ?thesis by simp
  qed
qed

text \<open>
  Claim C4. The room identifier does not depend on the order of the two identities; it is
  the smaller identity, the separator \<open>_\<close>, the larger identity; \<open>createCall\<close> returns this
  identifier, which for caller \<open>u1\<close> and callee \<open>u2\<close> is \<open>u1_u2\<close>, and \<open>getToken\<close>
  requests a token for the room of the same name.
\<close>

theorem roomName_order_independent:
  "roomName a b = roomName b a
   \<and> roomName a b = (if str_less b a then b @ ''_'' @ a else a @ ''_'' @ b)
   \<and> r_roomId (fst (createCall params ref now db))
       = roomName (p_callerId params) (p_calleeId params)
   \<and> r_roomId (fst (createCall
         \<lparr> p_callerId = ''u1'', p_callerName = n1, p_calleeId = ''u2'', p_calleeName = n2 \<rparr>
         ref now db)) = ''u1_u2''
   \<and> map_option req_roomName (getToken_request (Some u) p)
       = (if uid u = [] then None
          else Some (Some (JStr (roomName (uid u) (prop_partnerId p)))))"
proof -
  have "roomName a b = roomName b a" by (rule roomName_commute)
  moreover have "roomName a b = (if str_less b a then b @ ''_'' @ a else a @ ''_'' @ b)"
    by (rule roomName_cases)
  moreover have "r_roomId (fst (createCall params ref now db))
       = roomName (p_callerId params) (p_calleeId params)"
    by (simp add: createCall_def addDoc_def Let_def)
  moreover have "r_roomId (fst (createCall
         \<lparr> p_callerId = ''u1'', p_callerName = n1, p_calleeId = ''u2'', p_calleeName = n2 \<rparr>
         ref now db)) = ''u1_u2''"
    by (simp add: createCall_def addDoc_def Let_def roomName_cases)
  moreover have "map_option req_roomName (getToken_request (Some u) p)
       = (if uid u = [] then None
          else Some (Some (JStr (roomName (uid u) (prop_partnerId p)))))"
    by (simp add: getToken_request_def)
  ultimately show ?thesis by blast
qed

section \<open>Properties of the invite transitions\<close>

lemma request_step:
  "db cid = Some d \<Longrightarrow>
   request t now cid db = Inr (db(cid \<mapsto> d\<lparr> status := target t, updatedAt := now \<rparr>))"
  by (cases t) (simp_all add: acceptCall_def endCall_def updateDoc_def)

lemma requests_last:
  "db cid = Some d \<Longrightarrow> rs \<noteq> [] \<Longrightarrow>
   (\<exists>db' d'. requests rs cid db = Inr db' \<and> db' cid = Some d' \<and>
      status d' = target (fst (last rs)) \<and> dom db' = dom db)"
proof (induction rs arbitrary: db d)
  case Nil
  then show ?case by simp
next
  case (Cons r rs)
  obtain t now where r: "r = (t, now)" by (cases r)
  let ?d1 = "d\<lparr> status := target t, updatedAt := now \<rparr>"
  let ?db1 = "db(cid \<mapsto> ?d1)"
  have step: "request t now cid db = Inr ?db1"
    using Cons.prems(1) by (rule request_step)
  have dom1: "dom ?db1 = dom db"
    using Cons.prems(1) by auto
  show ?case
  proof (cases rs)
    case Nil
    then show ?thesis using step dom1 r by simp
  next
    case (Cons r' rs')
    then have "rs \<noteq> []" by simp
    moreover have "?db1 cid = Some ?d1" by simp
    ultimately obtain db' d' where
      "requests rs cid ?db1 = Inr db'" "db' cid = Some d'"
      "status d' = target (fst (last rs))" "dom db' = dom ?db1"
      using Cons.IH by blast
    then show ?thesis using step dom1 r \<open>rs \<noteq> []\<close> by simp
  qed
qed

lemma target_not_ringing: "target t \<noteq> Ringing"
  by (cases t) simp_all

text \<open>
  Claim C1, as stated, fails: \<open>acceptCall\<close> on an invite whose status is \<open>ended\<close> is not
  rejected; it succeeds and the status becomes \<open>accepted\<close>.
\<close>

theorem acceptCall_on_ended_invite:
  "status ended_invite = Ended
   \<and> acceptCall 50000 ''c1'' [''c1'' \<mapsto> ended_invite]
       = Inr [''c1'' \<mapsto> ended_invite\<lparr> status := Accepted, updatedAt := 50000 \<rparr>]
   \<and> status (ended_invite\<lparr> status := Accepted, updatedAt := 50000 \<rparr>) = Accepted"
  by (simp add: acceptCall_def updateDoc_def ended_invite_def)

text \<open>
  Claim C1, amended. On an invite that exists, \<open>acceptCall\<close> sets the status to
  \<open>accepted\<close> and \<open>endCall\<close> sets it to \<open>ended\<close>, whatever the status was; no request
  is rejected for its transition (the only failure is the store's for a missing document,
  which changes nothing). Neither operation writes \<open>ringing\<close>: after any non-empty
  sequence of requests the status is the target of the last request, so never \<open>ringing\<close>.
\<close>

theorem transitions_unguarded:
  assumes "db cid = Some d"
  shows "acceptCall now cid db = Inr (db(cid \<mapsto> d\<lparr> status := Accepted, updatedAt := now \<rparr>))
    \<and> endCall now cid db = Inr (db(cid \<mapsto> d\<lparr> status := Ended, updatedAt := now \<rparr>))
    \<and> (rs \<noteq> [] \<longrightarrow>
         (\<exists>db' d'. requests rs cid db = Inr db' \<and> db' cid = Some d'
            \<and> status d' = target (fst (last rs)) \<and> status d' \<noteq> Ringing))"
proof -
  have a: "acceptCall now cid db = Inr (db(cid \<mapsto> d\<lparr> status := Accepted, updatedAt := now \<rparr>))"
    using assms by (simp add: acceptCall_def updateDoc_def)
  have e: "endCall now cid db = Inr (db(cid \<mapsto> d\<lparr> status := Ended, updatedAt := now \<rparr>))"
    using assms by (simp add: endCall_def updateDoc_def)
  have s: "\<exists>db' d'. requests rs cid db = Inr db' \<and> db' cid = Some d'
            \<and> status d' = target (fst (last rs)) \<and> status d' \<noteq> Ringing" if nonempty: "rs \<noteq> []"
  proof -
    obtain db' d' where r: "requests rs cid db = Inr db'" "db' cid = Some d'"
        "status d' = target (fst (last rs))"
      using requests_last [of db cid d rs] assms nonempty by blast
    then have "status d' \<noteq> Ringing" by (simp add: target_not_ringing)
    with r show ?thesis by blast
  qed
  from a e s show ?thesis by blast
qed

theorem transitions_unguarded_witness:
  "[''c1'' \<mapsto> ringing_invite] ''c1'' = Some ringing_invite
   \<and> acceptCall 2000 ''c1'' [''c1'' \<mapsto> ringing_invite]
       = Inr [''c1'' \<mapsto> ringing_invite\<lparr> status := Accepted, updatedAt := 2000 \<rparr>]
   \<and> endCall 2000 ''c1'' [''c1'' \<mapsto> ringing_invite]
       = Inr [''c1'' \<mapsto> ringing_invite\<lparr> status := Ended, updatedAt := 2000 \<rparr>]
   \<and> (\<exists>db' d'. requests [(EndCall, 2000), (AcceptCall, 3000)] ''c1'' [''c1'' \<mapsto> ringing_invite] = Inr db'
         \<and> db' ''c1'' = Some d' \<and> status d' = Accepted \<and> status d' \<noteq> Ringing)"
  using transitions_unguarded [of "[''c1'' \<mapsto> ringing_invite]" "''c1''" ringing_invite 2000
      "[(EndCall, 2000), (AcceptCall, 3000)]"]
  by (simp add: acceptCall_def endCall_def updateDoc_def)

text \<open>
  Claim C9. \<open>acceptCall\<close> and \<open>endCall\<close> change only \<open>status\<close> and \<open>updatedAt\<close> of the
  invite: the document stays under its id, every other field keeps its value (putting the
  two old values back gives the old document), and no other document is touched.
\<close>

theorem accept_end_frame:
  assumes "db cid = Some d"
  shows "(\<exists>db' d'. acceptCall now cid db = Inr db' \<and> db' cid = Some d'
            \<and> roomId d' = roomId d \<and> callerId d' = callerId d \<and> callerName d' = callerName d
            \<and> calleeId d' = calleeId d \<and> calleeName d' = calleeName d
            \<and> createdAt d' = createdAt d
            \<and> d'\<lparr> status := status d, updatedAt := updatedAt d \<rparr> = d
            \<and> dom db' = dom db \<and> (\<forall>k. k \<noteq> cid \<longrightarrow> db' k = db k))
       \<and> (\<exists>db' d'. endCall now cid db = Inr db' \<and> db' cid = Some d'
            \<and> roomId d' = roomId d \<and> callerId d' = callerId d \<and> callerName d' = callerName d
            \<and> calleeId d' = calleeId d \<and> calleeName d' = calleeName d
            \<and> createdAt d' = createdAt d
            \<and> d'\<lparr> status := status d, updatedAt := updatedAt d \<rparr> = d
            \<and> dom db' = dom db \<and> (\<forall>k. k \<noteq> cid \<longrightarrow> db' k = db k))"
proof -
  have dom_eq: "dom (db(cid \<mapsto> x)) = dom db" for x
    using assms by auto
  have "acceptCall now cid db = Inr (db(cid \<mapsto> d\<lparr> status := Accepted, updatedAt := now \<rparr>))"
    using assms by (simp add: acceptCall_def updateDoc_def)
  moreover have "endCall now cid db = Inr (db(cid \<mapsto> d\<lparr> status := Ended, updatedAt := now \<rparr>))"
    using assms by (simp add: endCall_def updateDoc_def)
  ultimately show ?thesis using dom_eq by simp
qed

theorem accept_end_frame_witness:
  "[''c1'' \<mapsto> ringing_invite] ''c1'' = Some ringing_invite
   \<and> (\<exists>db' d'. acceptCall 2000 ''c1'' [''c1'' \<mapsto> ringing_invite] = Inr db' \<and> db' ''c1'' = Some d'
         \<and> roomId d' = ''u1_u2'' \<and> callerId d' = ''u1'' \<and> callerName d' = ''Ann''
         \<and> calleeId d' = ''u2'' \<and> calleeName d' = ''Bob'' \<and> createdAt d' = 1000)
   \<and> (\<exists>db' d'. endCall 2000 ''c1'' [''c1'' \<mapsto> ringing_invite] = Inr db' \<and> db' ''c1'' = Some d'
         \<and> roomId d' = ''u1_u2'' \<and> callerId d' = ''u1'' \<and> callerName d' = ''Ann''
         \<and> calleeId d' = ''u2'' \<and> calleeName d' = ''Bob'' \<and> createdAt d' = 1000)"
  using accept_end_frame [of "[''c1'' \<mapsto> ringing_invite]" "''c1''" ringing_invite 2000]
  by (simp add: ringing_invite_def acceptCall_def endCall_def updateDoc_def)

section \<open>Properties of the session component\<close>

lemma stopRecording_sessionHistory: "sessionHistory (stopRecording f c) = sessionHistory c"
  by (simp add: stopRecording_def split: option.split)

lemma handleEndCall_history:
  "sessionHistory (handleEndCall p f now saved c) =
     sessionHistory c @
       (if saved then
          [\<lparr> partnerId = prop_partnerId p, partnerUsername = prop_partnerName p,
             duration = callDuration c, timestamp = now,
             connectionFee = prop_connectionFee p, wasRecorded = isRecording c \<rparr>]
        else [])"
  by (simp add: handleEndCall_def Let_def stopRecording_sessionHistory)

lemma handleDisconnect_history:
  "sessionHistory (handleDisconnect p now stamp saved c) =
     sessionHistory c @
       (if saved then
          [\<lparr> partnerId = prop_partnerId p, partnerUsername = prop_partnerName p,
             duration = (now - startTimeRef c) div 1000, timestamp = stamp,
             connectionFee = prop_connectionFee p, wasRecorded = False \<rparr>]
        else [])"
  by (simp add: handleDisconnect_def Let_def)

lemma fold_ondataavailable:
  "recordedChunks (fold ondataavailable chunks c)
     = recordedChunks c @ filter (\<lambda>ch. 0 < blob_size ch) chunks"
  by (induction chunks arbitrary: c) (simp_all add: ondataavailable_def)







text \<open>
  Claim C2, as stated, fails: an explicit end-call followed by the transport's disconnect
  callback writes two history entries for the same call.
\<close>

theorem end_then_disconnect_writes_twice:
  "map duration (sessionHistory (handleDisconnect example_props 42500 42500 True
      (handleEndCall example_props [] 42000 True (tick 42000 idle_component)))) = [42, 42]"
  by (simp add: handleEndCall_def handleDisconnect_def Let_def tick_def idle_component_def)

text \<open>
  Claim C2, amended. \<open>endCall\<close> twice on an invite leaves the status \<open>ended\<close>; the second
  call only renews \<open>updatedAt\<close>. In the component every termination trigger whose history
  write succeeds appends one entry, so two triggers (end-call then disconnect, or end-call
  twice) append two.
\<close>

theorem each_trigger_appends_one_entry:
  "(db cid = Some d \<longrightarrow>
      endCall t1 cid db = Inr (db(cid \<mapsto> d\<lparr> status := Ended, updatedAt := t1 \<rparr>))
      \<and> endCall t2 cid (db(cid \<mapsto> d\<lparr> status := Ended, updatedAt := t1 \<rparr>))
          = Inr (db(cid \<mapsto> d\<lparr> status := Ended, updatedAt := t2 \<rparr>)))
   \<and> length (sessionHistory (handleEndCall p f n1 True c)) = Suc (length (sessionHistory c))
   \<and> length (sessionHistory (handleDisconnect p n1 s1 True c)) = Suc (length (sessionHistory c))
   \<and> length (sessionHistory (handleDisconnect p n2 s2 True (handleEndCall p f n1 True c)))
       = length (sessionHistory c) + 2
   \<and> length (sessionHistory (handleEndCall p f2 n2 True (handleEndCall p f n1 True c)))
       = length (sessionHistory c) + 2"
  by (simp add: handleEndCall_history handleDisconnect_history endCall_def updateDoc_def)

theorem each_trigger_appends_one_entry_witness:
  "[''c1'' \<mapsto> ringing_invite] ''c1'' = Some ringing_invite
   \<and> endCall 43000 ''c1'' [''c1'' \<mapsto> ringing_invite]
       = Inr [''c1'' \<mapsto> ringing_invite\<lparr> status := Ended, updatedAt := 43000 \<rparr>]
   \<and> endCall 44000 ''c1'' [''c1'' \<mapsto> ringing_invite\<lparr> status := Ended, updatedAt := 43000 \<rparr>]
       = Inr [''c1'' \<mapsto> ringing_invite\<lparr> status := Ended, updatedAt := 44000 \<rparr>]
   \<and> length (sessionHistory (handleDisconnect example_props 42500 42500 True
         (handleEndCall example_props [] 42000 True idle_component))) = 2"
  using each_trigger_appends_one_entry
    [where db = "[''c1'' \<mapsto> ringing_invite]" and cid = "''c1''" and d = ringing_invite
       and ?t1.0 = 43000 and ?t2.0 = 44000 and p = example_props and f = "[]" and ?n1.0 = 42000
       and c = idle_component and ?n2.0 = 42500 and ?s2.0 = 42500]
  by (simp add: idle_component_def)



text \<open>
  Claim C5, at a call whose last timer tick ran at 1050 ms and which ends at 2010 ms:
  \<open>handleEndCall\<close> stores the displayed value 1, while the span from start to end is 2
  seconds, the value \<open>handleDisconnect\<close> stores.
\<close>

theorem endCall_duration_is_display_value:
  "map duration (sessionHistory
       (handleEndCall example_props [] 2010 True (tick 1050 idle_component))) = [1]
   \<and> (2010 - startTimeRef (tick 1050 idle_component)) div 1000 = 2
   \<and> map duration (sessionHistory
       (handleDisconnect example_props 2010 2010 True (tick 1050 idle_component))) = [2]"
  by (simp add: handleEndCall_history handleDisconnect_history tick_def idle_component_def)



text \<open>
  Claim C7. A delivered chunk is appended to the end of the chunk sequence when its size
  is positive and dropped when its size is zero; after any run of deliveries the sequence
  is the old one followed by the non-empty chunks in the order they were delivered.
\<close>

theorem chunks_appended_iff_nonempty:
  "ondataavailable chunk c =
     (if blob_size chunk = 0 then c else c\<lparr> recordedChunks := recordedChunks c @ [chunk] \<rparr>)
   \<and> ((recordedChunks (ondataavailable chunk c) = recordedChunks c @ [chunk])
        = (0 < blob_size chunk))
   \<and> recordedChunks (fold ondataavailable chunks c)
       = recordedChunks c @ filter (\<lambda>ch. 0 < blob_size ch) chunks"
proof -
  have "ondataavailable chunk c =
     (if blob_size chunk = 0 then c else c\<lparr> recordedChunks := recordedChunks c @ [chunk] \<rparr>)"
    by (simp add: ondataavailable_def)
  moreover have "(recordedChunks (ondataavailable chunk c) = recordedChunks c @ [chunk])
        = (0 < blob_size chunk)"
    by (simp add: ondataavailable_def)
  ultimately show ?thesis
    using fold_ondataavailable [of chunks c] by blast
qed

text \<open>
  Claim C10. The entry \<open>handleDisconnect\<close> writes has \<open>wasRecorded = False\<close> whatever
  the recording state; the entry \<open>handleEndCall\<close> writes carries the value of
  \<open>isRecording\<close> at the time of the call, the only way a true flag is written.
\<close>

theorem disconnect_entry_not_recorded:
  "sessionHistory (handleDisconnect p now stamp saved c) =
     sessionHistory c @
       (if saved then
          [\<lparr> partnerId = prop_partnerId p, partnerUsername = prop_partnerName p,
             duration = (now - startTimeRef c) div 1000, timestamp = stamp,
             connectionFee = prop_connectionFee p, wasRecorded = False \<rparr>]
        else [])
   \<and> sessionHistory (handleEndCall p f now saved c) =
     sessionHistory c @
       (if saved then
          [\<lparr> partnerId = prop_partnerId p, partnerUsername = prop_partnerName p,
             duration = callDuration c, timestamp = now,
             connectionFee = prop_connectionFee p, wasRecorded = isRecording c \<rparr>]
        else [])"
  using handleDisconnect_history [of p now stamp saved c] handleEndCall_history [of p f now saved c]
  by blast

section \<open>Properties of the token endpoint\<close>

text \<open>
  Claim C8, as stated, fails: a request whose body cannot be read gets status 500, not
  400 and not a token; and a request with both required fields, on a server with both
  credentials, gets status 500 and no token when signing throws.
\<close>

theorem POST_fails_outside_both_checks:
  "POST (Inl (Some ''Unexpected end of JSON input'')) configured signer
     = \<lparr> statusCode = 500,
         body = ErrorBody ''Failed to generate token'' (Some ''Unexpected end of JSON input'') \<rparr>
   \<and> truthy (req_roomName good_request) \<and> truthy (req_participantIdentity good_request)
   \<and> env_set (LIVEKIT_API_KEY configured) \<and> env_set (LIVEKIT_API_SECRET configured)
   \<and> POST (Inr good_request) configured broken_signer
     = \<lparr> statusCode = 500,
         body = ErrorBody ''Failed to generate token'' (Some ''signing failed'') \<rparr>"
  by (simp add: POST_def failed_def configured_def good_request_def broken_signer_def env_set_def)

text \<open>
  Claim C8, amended. If reading the body throws, the response is 500 with an error body.
  Otherwise, if \<open>roomName\<close> or \<open>participantIdentity\<close> is missing or falsy, it is 400 with
  an error body; otherwise, if the API key or secret is unset or empty, it is 500 with an
  error body; otherwise it is 200 with the token when signing succeeds and 500 with an
  error body when signing throws.
\<close>

theorem POST_responses:
  "(parsed = Inl ex \<longrightarrow> POST parsed env toJwt = failed ex)
   \<and> (parsed = Inr req \<and> (\<not> truthy (req_roomName req) \<or> \<not> truthy (req_participantIdentity req)) \<longrightarrow>
        POST parsed env toJwt =
          \<lparr> statusCode = 400,
            body = ErrorBody ''roomName and participantIdentity are required'' None \<rparr>)
   \<and> (parsed = Inr req \<and> truthy (req_roomName req) \<and> truthy (req_participantIdentity req)
        \<and> (\<not> env_set (LIVEKIT_API_KEY env) \<or> \<not> env_set (LIVEKIT_API_SECRET env)) \<longrightarrow>
        POST parsed env toJwt =
          \<lparr> statusCode = 500,
            body = ErrorBody ''Server configuration error - LiveKit credentials not set'' None \<rparr>)
   \<and> (parsed = Inr req \<and> truthy (req_roomName req) \<and> truthy (req_participantIdentity req)
        \<and> LIVEKIT_API_KEY env = Some k \<and> k \<noteq> [] \<and> LIVEKIT_API_SECRET env = Some sec \<and> sec \<noteq> [] \<longrightarrow>
        POST parsed env toJwt =
          (case toJwt k sec
                 \<lparr> opt_identity = req_participantIdentity req,
                   opt_name = (if truthy (req_participantName req) then req_participantName req
                               else req_participantIdentity req),
                   opt_room = req_roomName req \<rparr> of
             Inl ex' \<Rightarrow> failed ex'
           | Inr token \<Rightarrow> \<lparr> statusCode = 200, body = TokenBody token \<rparr>))"
  by (auto simp add: POST_def env_set_def)

theorem POST_responses_witness:
  "POST (Inl None) configured signer = failed None
   \<and> POST (Inr (good_request\<lparr> req_roomName := None \<rparr>)) configured signer
       = \<lparr> statusCode = 400,
           body = ErrorBody ''roomName and participantIdentity are required'' None \<rparr>
   \<and> POST (Inr good_request) (configured\<lparr> LIVEKIT_API_SECRET := None \<rparr>) signer
       = \<lparr> statusCode = 500,
           body = ErrorBody ''Server configuration error - LiveKit credentials not set'' None \<rparr>
   \<and> POST (Inr good_request) configured signer
       = \<lparr> statusCode = 200, body = TokenBody ''key.secret'' \<rparr>
   \<and> POST (Inr good_request) configured broken_signer = failed (Some ''signing failed'')"
  using POST_responses [where parsed = "Inl None" and ex = None and env = configured and toJwt = signer]
    POST_responses [where parsed = "Inr (good_request\<lparr> req_roomName := None \<rparr>)"
      and req = "good_request\<lparr> req_roomName := None \<rparr>" and env = configured and toJwt = signer]
    POST_responses [where parsed = "Inr good_request" and req = good_request
      and env = "configured\<lparr> LIVEKIT_API_SECRET := None \<rparr>" and toJwt = signer]
    POST_responses [where parsed = "Inr good_request" and req = good_request
      and env = configured and toJwt = signer and k = "''key''" and sec = "''secret''"]
    POST_responses [where parsed = "Inr good_request" and req = good_request
      and env = configured and toJwt = broken_signer and k = "''key''" and sec = "''secret''"]
  by (simp add: configured_def good_request_def signer_def broken_signer_def env_set_def)

end
